theory Spec2Isabelle
  imports Complex_Main "HOL-Library.Word" "HOL-Library.Monad_Syntax"
begin

section \<open>The Decimal type of decimal.go\<close>

text \<open>
  A \<^verbatim>\<open>Decimal\<close> is the struct \<^verbatim>\<open>{value *uint256.Int; mantissa uint8}\<close>. The magnitude is
  a 256-bit unsigned word, on which \<open>+\<close>, \<open>-\<close> and \<open>*\<close> wrap modulo \<open>2 ^ 256\<close> as the
  methods of \<^verbatim>\<open>uint256.Int\<close> do, and the scale is an 8-bit unsigned word.

  The record holds the state of one Decimal whose \<^verbatim>\<open>value\<close> pointer is set, as every
  constructor of the package leaves it. A method that writes to its receiver is a function
  from the receiver's state (and the arguments) to the receiver's new state. A pointer
  argument that the source tests against \<^verbatim>\<open>nil\<close> is an \<open>option\<close>, \<open>None\<close> being \<^verbatim>\<open>nil\<close>.
  Every method first copies its operands (\<^verbatim>\<open>NewDecimal\<close>), so passing the receiver as its
  own argument is the same as passing its state before the call.
\<close>

record Decimal =
  "value" :: "256 word"
  mantissa :: "8 word"

text \<open>\<^verbatim>\<open>NewDecimalZero\<close> and \<^verbatim>\<open>NewDecimalOne\<close>: magnitude 0 (resp. 1), scale 0.\<close>

definition NewDecimalZero :: Decimal where
  "NewDecimalZero = \<lparr>value = 0, mantissa = 0\<rparr>"

definition NewDecimalOne :: Decimal where
  "NewDecimalOne = \<lparr>value = 1, mantissa = 0\<rparr>"

text \<open>
  The package variable \<^verbatim>\<open>var Zero = NewDecimalZero()\<close>. No function of the file writes
  to it; the model takes it at its initial value.
\<close>

definition Zero :: Decimal where
  "Zero = NewDecimalZero"

text \<open>
  \<^verbatim>\<open>NewDecimalFromUint256\<close> copies the four limbs of its argument into a fresh
  \<^verbatim>\<open>uint256.Int\<close>: the new Decimal has the same magnitude and shares no storage.
\<close>

definition NewDecimalFromUint256 :: "256 word \<Rightarrow> 8 word \<Rightarrow> Decimal" where
  "NewDecimalFromUint256 v m = \<lparr>value = v, mantissa = m\<rparr>"

text \<open>\<^verbatim>\<open>NewDecimal\<close>: a copy of its argument, a \<^verbatim>\<open>nil\<close> argument being replaced by zero.\<close>

definition NewDecimal :: "Decimal option \<Rightarrow> Decimal" where
  "NewDecimal decimal =
     (let decimal' = (case decimal of None \<Rightarrow> NewDecimalZero | Some d \<Rightarrow> d)
      in NewDecimalFromUint256 (value decimal') (mantissa decimal'))"

subsection \<open>The power-of-ten provider\<close>

text \<open>
  Go's conversion \<^verbatim>\<open>int16(x)\<close> keeps the low 16 bits of \<open>x\<close>, read as two's complement.
\<close>

definition int16 :: "int \<Rightarrow> int" where
  "int16 x = sint (word_of_int x :: 16 word)"

text \<open>
  Modelled from the spec: the function \<^verbatim>\<open>ExpScale\<close>, which decimal.go calls and does not
  define. The spec (section 6, power-of-ten provider): given an exponent in \<open>[0, 255]\<close> it
  returns \<open>10 ^ exponent\<close> as a 256-bit unsigned magnitude, wrapped modulo \<open>2 ^ 256\<close> where
  the power exceeds the range. The same rule is used for the larger exponents that
  \<^verbatim>\<open>Div\<close> can pass (up to 275); a negative argument, which no call of the file passes,
  is read as exponent 0.
\<close>

definition ExpScale :: "int \<Rightarrow> 256 word" where
  "ExpScale scale = 10 ^ nat scale"

subsection \<open>Rescale\<close>

text \<open>
  \<^verbatim>\<open>Rescale\<close> on a receiver that is not \<^verbatim>\<open>nil\<close> (on \<^verbatim>\<open>nil\<close> it returns \<^verbatim>\<open>nil\<close> and writes
  nothing; every call in the file is on a fresh copy). The comparisons and the
  subtraction \<open>mantissa - mantissa d\<close> are those of \<^verbatim>\<open>uint8\<close>. \<^verbatim>\<open>uint256.Int.Div\<close> is the
  truncating unsigned quotient, and 0 for a zero divisor, as \<open>div\<close> on words is.
\<close>

definition Rescale :: "Decimal \<Rightarrow> 8 word \<Rightarrow> Decimal" where
  "Rescale d m =
     (if m = mantissa d then d
      else if m > mantissa d then
        \<lparr>value = value d * ExpScale (int16 (uint (m - mantissa d))), mantissa = m\<rparr>
      else if m < mantissa d then
        \<lparr>value = value d div ExpScale (int16 (uint (mantissa d - m))), mantissa = m\<rparr>
      else d)"

subsection \<open>Comparison\<close>

definition Eq :: "Decimal option \<Rightarrow> Decimal option \<Rightarrow> bool" where
  "Eq d y =
     (let xx = NewDecimal d; yy = NewDecimal y;
          (xx, yy) =
            (if mantissa yy > mantissa xx then (Rescale xx (mantissa yy), yy)
             else if mantissa yy < mantissa xx then (xx, Rescale yy (mantissa xx))
             else (xx, yy))
      in value xx = value yy)"

definition Gt :: "Decimal option \<Rightarrow> Decimal option \<Rightarrow> bool" where
  "Gt d y =
     (let xx = NewDecimal d; yy = NewDecimal y;
          (xx, yy) =
            (if mantissa yy > mantissa xx then (Rescale xx (mantissa yy), yy)
             else if mantissa yy < mantissa xx then (xx, Rescale yy (mantissa xx))
             else (xx, yy))
      in value xx > value yy)"

definition Lt :: "Decimal option \<Rightarrow> Decimal option \<Rightarrow> bool" where
  "Lt d y =
     (let xx = NewDecimal d; yy = NewDecimal y;
          (xx, yy) =
            (if mantissa yy > mantissa xx then (Rescale xx (mantissa yy), yy)
             else if mantissa yy < mantissa xx then (xx, Rescale yy (mantissa xx))
             else (xx, yy))
      in value xx < value yy)"

subsection \<open>Arithmetic\<close>

text \<open>
  \<^verbatim>\<open>Add\<close>, \<^verbatim>\<open>Sub\<close> and \<^verbatim>\<open>Mul\<close> write the result into the receiver and return the
  receiver: the model gives the receiver's state after the call.
\<close>

definition Add :: "Decimal \<Rightarrow> Decimal option \<Rightarrow> Decimal" where
  "Add d y =
     (let xx = NewDecimal (Some d); yy = NewDecimal y;
          (xx, yy) =
            (if mantissa yy > mantissa xx then (Rescale xx (mantissa yy), yy)
             else if mantissa yy < mantissa xx then (xx, Rescale yy (mantissa xx))
             else (xx, yy))
      in d\<lparr>value := value xx + value yy, mantissa := mantissa xx\<rparr>)"

definition Sub :: "Decimal \<Rightarrow> Decimal option \<Rightarrow> Decimal" where
  "Sub d y =
     (let xx = NewDecimal (Some d); yy = NewDecimal y;
          (xx, yy) =
            (if mantissa yy > mantissa xx then (Rescale xx (mantissa yy), yy)
             else if mantissa yy < mantissa xx then (xx, Rescale yy (mantissa xx))
             else (xx, yy))
      in d\<lparr>value := value xx - value yy, mantissa := mantissa xx\<rparr>)"

definition Mul :: "Decimal \<Rightarrow> Decimal option \<Rightarrow> Decimal" where
  "Mul d y =
     (let xx = NewDecimal (Some d); yy = NewDecimal y;
          (xx, yy) =
            (if mantissa yy > mantissa xx then (Rescale xx (mantissa yy), yy)
             else if mantissa yy < mantissa xx then (xx, Rescale yy (mantissa xx))
             else (xx, yy))
      in d\<lparr>value := value xx * value yy, mantissa := mantissa xx + mantissa yy\<rparr>)"

text \<open>
  \<^verbatim>\<open>Div\<close> returns either a freshly allocated Decimal, leaving the receiver as it was, or
  the receiver after writing the quotient into it. The model returns which pointer comes
  back together with the receiver's state after the call. \<open>e\<close> is an \<^verbatim>\<open>int64\<close> built from
  two \<^verbatim>\<open>uint8\<close> values and the constant 20, so it lies in \<open>[-275, 235]\<close> and is an exact
  integer.
\<close>

datatype returned = Receiver | Fresh Decimal

definition defaultDivScale :: "8 word" where
  "defaultDivScale = 20"

definition Div :: "Decimal \<Rightarrow> Decimal option \<Rightarrow> returned \<times> Decimal" where
  "Div d y =
     (if Eq y (Some Zero) then (Fresh NewDecimalZero, d)
      else
        let xx = NewDecimal (Some d); yy = NewDecimal y;
            e = uint (mantissa xx) - uint (mantissa yy) - uint defaultDivScale;
            (xx, yy, scalerest) =
              (if e < 0 then
                 (xx\<lparr>value := value xx * ExpScale (int16 (- e))\<rparr>, yy, defaultDivScale)
               else
                 (xx, yy\<lparr>value := value yy * ExpScale (int16 e)\<rparr>, mantissa xx))
        in (Receiver, d\<lparr>value := value xx div value yy, mantissa := scalerest\<rparr>))"

section \<open>Library functions used by the codec and the conversions\<close>

text \<open>
  \<^verbatim>\<open>math/big\<close> and \<^verbatim>\<open>github.com/holiman/uint256\<close> are libraries outside the repository.
  The definitions below state the behaviour of the three functions the file calls on them.
  A \<^verbatim>\<open>big.Int\<close> is an \<open>int\<close>; a \<^verbatim>\<open>*big.Int\<close> that may be \<^verbatim>\<open>nil\<close> is an \<open>int option\<close>. A Go
  string is a sequence of bytes, here a \<open>string\<close>.
\<close>

text \<open>The value of a decimal digit byte \<^verbatim>\<open>'0'..'9'\<close> (bytes 48 to 57).\<close>

definition digit :: "char \<Rightarrow> nat option" where
  "digit ch =
     (let c = (of_char ch :: nat)
      in if 48 \<le> c \<and> c \<le> 57 then Some (c - 48) else None)"

fun scan_digits :: "string \<Rightarrow> nat \<Rightarrow> nat option" where
  "scan_digits [] z = Some z"
| "scan_digits (ch # r) z =
     (case digit ch of None \<Rightarrow> None | Some d1 \<Rightarrow> scan_digits r (z * 10 + d1))"

text \<open>
  \<^verbatim>\<open>(*big.Int).SetString(s, 10)\<close>: an optional sign \<^verbatim>\<open>+\<close> or \<^verbatim>\<open>-\<close>, then one or more decimal
  digits, and nothing else; the whole string must be consumed. \<open>None\<close> is the failure
  (\<^verbatim>\<open>nil, false\<close>).
\<close>

definition big_SetString :: "string \<Rightarrow> int option" where
  "big_SetString s =
     (let (neg, r) =
            (case s of
               [] \<Rightarrow> (False, [])
             | ch # r' \<Rightarrow>
                 if ch = CHR ''-'' then (True, r')
                 else if ch = CHR ''+'' then (False, r')
                 else (False, s))
      in if r = [] then None
         else (case scan_digits r 0 of
                 None \<Rightarrow> None
               | Some n \<Rightarrow> Some (if neg then - int n else int n)))"

text \<open>
  \<^verbatim>\<open>(*uint256.Int).SetFromBig(b)\<close>: clears the receiver, copies the four low 64-bit limbs
  of \<open>\<bar>b\<bar>\<close>, negates the result modulo \<open>2 ^ 256\<close> when \<open>b\<close> is negative, and reports
  overflow when \<open>\<bar>b\<bar>\<close> has more than four limbs. The receiver is written also when
  overflow is reported. The model returns the receiver's new value and the flag.
  \<^verbatim>\<open>uint256.FromBig(b)\<close> does the same on a fresh \<^verbatim>\<open>uint256.Int\<close>.
\<close>

definition uint256_SetFromBig :: "int \<Rightarrow> 256 word \<times> bool" where
  "uint256_SetFromBig b =
     (let z = (of_nat (nat \<bar>b\<bar>) :: 256 word);
          overflow = (\<bar>b\<bar> \<ge> 2 ^ 256)
      in (if b < 0 then - z else z, overflow))"

definition uint256_FromBig :: "int \<Rightarrow> 256 word \<times> bool" where
  "uint256_FromBig b = uint256_SetFromBig b"

text \<open>
  \<^verbatim>\<open>strings.Split(s, ".")\<close>: the pieces of \<open>s\<close> between the dots, one more than there are
  dots. \<^verbatim>\<open>strings.Join(parts, "")\<close> is \<open>concat\<close>.
\<close>

fun Split :: "string \<Rightarrow> string list" where
  "Split [] = [[]]"
| "Split (c # cs) =
     (if c = CHR ''.'' then [] # Split cs
      else (case Split cs of p # ps \<Rightarrow> (c # p) # ps | [] \<Rightarrow> [[c]]))"

section \<open>The string codec\<close>

text \<open>
  The loop of \<^verbatim>\<open>FromString\<close> that finds the last byte of the fractional part that is not
  \<^verbatim>\<open>'0'\<close>: \<^verbatim>\<open>for zerosStart >= 0 && parts[1][zerosStart] == '0' { zerosStart-- }\<close>.
  It starts at \<open>length p - 1\<close> and only goes down, so the index is in range whenever it
  is read.
\<close>

function drop_zeros :: "string \<Rightarrow> int \<Rightarrow> int" where
  "drop_zeros p zerosStart =
     (if zerosStart \<ge> 0 \<and> p ! nat zerosStart = CHR ''0''
      then drop_zeros p (zerosStart - 1) else zerosStart)"
  by pat_completeness auto
termination
  by (relation "measure (\<lambda>(p, z). nat (z + 1))") auto

text \<open>The loop's equation is unfolded by hand: as a rewrite rule it would not stop.\<close>

declare drop_zeros.simps [simp del]

text \<open>
  \<^verbatim>\<open>FromString\<close> returns its boolean and the receiver's state after the call. On the empty
  string it replaces only the \<^verbatim>\<open>value\<close> field. \<open>parsed\<close> is \<open>None\<close> at the two early
  \<^verbatim>\<open>return false\<close>; otherwise it holds the result of \<^verbatim>\<open>SetString\<close> and the local
  \<^verbatim>\<open>mantissa\<close> with which the code after the \<^verbatim>\<open>if\<close> chain runs. \<^verbatim>\<open>strings.Split\<close> returns
  at least one piece, so in the last branch there are exactly two and \<open>parts ! 1\<close> is
  in range. \<^verbatim>\<open>math.MaxUint8\<close> is 255, and \<^verbatim>\<open>uint8(len(parts[1]))\<close> is \<open>of_nat\<close> into 8 bits.
\<close>

definition FromString :: "Decimal \<Rightarrow> string \<Rightarrow> bool \<times> Decimal" where
  "FromString d val =
     (if val = [] then (True, d\<lparr>value := 0\<rparr>)
      else
        let parts = Split val;
            parsed =
              (if length parts > 2 then None
               else if length parts = 1 then Some (big_SetString val, 0)
               else if length (parts ! 1) > 255 then None
               else
                 let zerosStart = drop_zeros (parts ! 1) (int (length (parts ! 1)) - 1);
                     parts = parts[1 := take (nat (zerosStart + 1)) (parts ! 1)]
                 in Some (big_SetString (concat parts), of_nat (length (parts ! 1))))
        in (case parsed of
              None \<Rightarrow> (False, d)
            | Some (None, m) \<Rightarrow> (False, d)
            | Some (Some valBig, m) \<Rightarrow>
                let (v, overflow) = uint256_SetFromBig valBig;
                    d = d\<lparr>value := v\<rparr>
                in if overflow then (False, d)
                   else (True, d\<lparr>mantissa := m\<rparr>)))"

text \<open>\<^verbatim>\<open>NewDecimalFromString\<close>: \<open>None\<close> is the return \<^verbatim>\<open>nil, false\<close>.\<close>

definition NewDecimalFromString :: "string \<Rightarrow> Decimal option" where
  "NewDecimalFromString val =
     (let (ok, d) = FromString NewDecimalZero val
      in if \<not> ok then None else Some d)"

section \<open>Conversions\<close>

definition SetMantissa :: "Decimal \<Rightarrow> 8 word \<Rightarrow> Decimal" where
  "SetMantissa d m = d\<lparr>mantissa := m\<rparr>"

text \<open>\<^verbatim>\<open>(*Decimal).SetFromBig\<close>: the receiver's new state and the overflow flag.\<close>

definition SetFromBig :: "Decimal \<Rightarrow> int \<Rightarrow> 8 word \<Rightarrow> Decimal \<times> bool" where
  "SetFromBig d v m =
     (let (z, overflow) = uint256_SetFromBig v;
          d = d\<lparr>value := z\<rparr>;
          d = SetMantissa d m
      in (d, overflow))"

definition NewDecimalFromBig :: "int option \<Rightarrow> 8 word \<Rightarrow> Decimal" where
  "NewDecimalFromBig v m =
     (let v = (case v of None \<Rightarrow> 0 | Some b \<Rightarrow> b);
          (valueUint256, overflow) = uint256_FromBig v
      in if overflow then NewDecimalZero
         else \<lparr>value = valueUint256, mantissa = m\<rparr>)"

text \<open>
  \<^verbatim>\<open>NewDecimalFromUint64\<close>: the conversion \<^verbatim>\<open>int64(value)\<close> reads the 64 bits as two's
  complement (\<open>sint\<close>), and \<^verbatim>\<open>big.NewInt\<close> gives the \<^verbatim>\<open>big.Int\<close> of that \<^verbatim>\<open>int64\<close>.
\<close>

definition big_NewInt :: "int \<Rightarrow> int" where
  "big_NewInt x = x"

definition NewDecimalFromUint64 :: "64 word \<Rightarrow> Decimal" where
  "NewDecimalFromUint64 v = fst (SetFromBig NewDecimalZero (big_NewInt (sint v)) 0)"

section \<open>The comparisons on an explicit store\<close>

text \<open>
  The value model above reads a comparison as a function of the two operands' states.
  That the source does not write to its operands rests on \<^verbatim>\<open>NewDecimal\<close> making copies that
  share no storage. To state it, the comparisons are given once more over an explicit
  store: the \<^verbatim>\<open>uint256.Int\<close> objects and the \<^verbatim>\<open>Decimal\<close> structs allocated so far, a pointer
  being an index. Allocation appends (nothing is ever freed), a \<^verbatim>\<open>nil\<close> pointer is \<open>None\<close>,
  and dereferencing \<^verbatim>\<open>nil\<close>, where Go panics, ends the computation with \<open>None\<close>. A
  \<^verbatim>\<open>Decimal\<close> struct is the pair of its \<^verbatim>\<open>value\<close> pointer and its \<^verbatim>\<open>mantissa\<close>.
\<close>

record store =
  ints :: "256 word list"
  decs :: "(nat option \<times> 8 word) list"

definition get_int :: "store \<Rightarrow> nat \<Rightarrow> 256 word option" where
  "get_int s r = (if r < length (ints s) then Some (ints s ! r) else None)"

definition get_dec :: "store \<Rightarrow> nat \<Rightarrow> (nat option \<times> 8 word) option" where
  "get_dec s p = (if p < length (decs s) then Some (decs s ! p) else None)"

text \<open>\<^verbatim>\<open>uint256.NewInt(v)\<close> and \<^verbatim>\<open>&Decimal{...}\<close>: a fresh object, at the next index.\<close>

definition new_int :: "256 word \<Rightarrow> store \<Rightarrow> nat \<times> store" where
  "new_int v s = (length (ints s), s\<lparr>ints := ints s @ [v]\<rparr>)"

definition new_dec :: "nat option \<times> 8 word \<Rightarrow> store \<Rightarrow> nat \<times> store" where
  "new_dec c s = (length (decs s), s\<lparr>decs := decs s @ [c]\<rparr>)"

text \<open>The state of the Decimal at pointer \<open>p\<close>, as the value model sees it.\<close>

definition load :: "store \<Rightarrow> nat \<Rightarrow> Decimal option" where
  "load s p =
     do { (vp, m) \<leftarrow> get_dec s p;
          r \<leftarrow> vp;
          v \<leftarrow> get_int s r;
          Some \<lparr>value = v, mantissa = m\<rparr> }"

definition NewDecimalZero_st :: "store \<Rightarrow> nat \<times> store" where
  "NewDecimalZero_st s = (let (v, s) = new_int 0 s in new_dec (Some v, 0) s)"

definition NewDecimalFromUint256_st :: "nat option \<Rightarrow> 8 word \<Rightarrow> store \<Rightarrow> (nat \<times> store) option" where
  "NewDecimalFromUint256_st vp m s =
     (let (valueCopy, s) = new_int 0 s
      in do { r \<leftarrow> vp;
              v \<leftarrow> get_int s r;
              Some (new_dec (Some valueCopy, m) (s\<lparr>ints := (ints s)[valueCopy := v]\<rparr>)) })"

definition NewDecimal_st :: "nat option \<Rightarrow> store \<Rightarrow> (nat \<times> store) option" where
  "NewDecimal_st decimal s =
     (let (decimal, s) = (case decimal of None \<Rightarrow> NewDecimalZero_st s | Some p \<Rightarrow> (p, s))
      in do { (vp, m) \<leftarrow> get_dec s decimal;
              NewDecimalFromUint256_st vp m s })"

text \<open>\<^verbatim>\<open>Rescale\<close> on the receiver \<open>d\<close>: the two writes go through \<open>d\<close> and \<open>d.value\<close>.\<close>

definition Rescale_st :: "nat \<Rightarrow> 8 word \<Rightarrow> store \<Rightarrow> store option" where
  "Rescale_st d m s =
     do { (vp, dm) \<leftarrow> get_dec s d;
          if m = dm then Some s
          else if m > dm then
            do { r \<leftarrow> vp; v \<leftarrow> get_int s r;
                 Some (s\<lparr>ints := (ints s)[r := v * ExpScale (int16 (uint (m - dm)))],
                         decs := (decs s)[d := (vp, m)]\<rparr>) }
          else if m < dm then
            do { r \<leftarrow> vp; v \<leftarrow> get_int s r;
                 Some (s\<lparr>ints := (ints s)[r := v div ExpScale (int16 (uint (dm - m)))],
                         decs := (decs s)[d := (vp, m)]\<rparr>) }
          else Some s }"

text \<open>
  \<^verbatim>\<open>Eq\<close>, \<^verbatim>\<open>Gt\<close> and \<^verbatim>\<open>Lt\<close> have the same body but for the comparison of the last line,
  here the parameter \<open>rel\<close>. The result is the boolean and the store after the call.
\<close>

definition compare_st ::
  "(256 word \<Rightarrow> 256 word \<Rightarrow> bool) \<Rightarrow> nat option \<Rightarrow> nat option \<Rightarrow> store \<Rightarrow> (bool \<times> store) option" where
  "compare_st rel d y s =
     do { (xx, s) \<leftarrow> NewDecimal_st d s;
          (yy, s) \<leftarrow> NewDecimal_st y s;
          (_, xm) \<leftarrow> get_dec s xx;
          (_, ym) \<leftarrow> get_dec s yy;
          s \<leftarrow> (if ym > xm then Rescale_st xx ym s
                else if ym < xm then Rescale_st yy xm s
                else Some s);
          (xp, _) \<leftarrow> get_dec s xx;
          (yp, _) \<leftarrow> get_dec s yy;
          xr \<leftarrow> xp; yr \<leftarrow> yp;
          xv \<leftarrow> get_int s xr;
          yv \<leftarrow> get_int s yr;
          Some (rel xv yv, s) }"

definition Eq_st :: "nat option \<Rightarrow> nat option \<Rightarrow> store \<Rightarrow> (bool \<times> store) option" where
  "Eq_st = compare_st (\<lambda>x y. x = y)"

definition Gt_st :: "nat option \<Rightarrow> nat option \<Rightarrow> store \<Rightarrow> (bool \<times> store) option" where
  "Gt_st = compare_st (\<lambda>x y. x > y)"

definition Lt_st :: "nat option \<Rightarrow> nat option \<Rightarrow> store \<Rightarrow> (bool \<times> store) option" where
  "Lt_st = compare_st (\<lambda>x y. x < y)"

section \<open>The represented value\<close>

text \<open>
  The spec's reading of a Decimal (section 3, data model): the represented numeric value is
  magnitude / 10 ^ scale. It is the yardstick for the comparisons and is no part of the
  code.
\<close>

definition represented :: "Decimal \<Rightarrow> rat" where
  "represented d = of_nat (unat (value d)) / 10 ^ unat (mantissa d)"

section \<open>Properties\<close>

subsection \<open>Helper facts\<close>

lemmas codec_defs = FromString_def NewDecimalFromString_def NewDecimalZero_def
  big_SetString_def digit_def uint256_SetFromBig_def drop_zeros.simps Let_def

lemma int16_id: "- 32768 \<le> x \<Longrightarrow> x < 32768 \<Longrightarrow> int16 x = x"
  unfolding int16_def by (simp add: int_word_sint)

lemma ExpScale_int16_uint: "ExpScale (int16 (uint (w :: 8 word))) = 10 ^ unat w"
proof -
  have "uint w < 256" using uint_lt2p [of w] by simp
  then have "int16 (uint w) = uint w"
    by (intro int16_id) (simp_all add: order_trans [OF _ uint_ge_0])
  then show ?thesis by (simp add: ExpScale_def)
qed

lemma unat_pow10: "unat ((10 :: 256 word) ^ n) = 10 ^ n mod 2 ^ 256"
proof -
  have "(10 :: 256 word) ^ n = of_nat (10 ^ n)" by simp
  then show ?thesis by (simp only: unat_of_nat) simp
qed

lemma unat_mult_pow10:
  "unat (x * (10 :: 256 word) ^ n) = unat x * 10 ^ n mod 2 ^ 256"
  by (simp add: unat_word_ariths unat_pow10 mod_mult_right_eq)

lemma NewDecimal_Some: "NewDecimal (Some d) = \<lparr>value = value d, mantissa = mantissa d\<rparr>"
  by (simp add: NewDecimal_def NewDecimalFromUint256_def)

lemma NewDecimal_Some_id: "NewDecimal (Some (d::Decimal)) = d"
  by (simp add: NewDecimal_Some)

lemma Eq_Zero_iff: "Eq y (Some Zero) \<longleftrightarrow> value (NewDecimal y) = 0"
  by (simp add: Eq_def NewDecimal_def NewDecimalFromUint256_def Zero_def NewDecimalZero_def
      Rescale_def Let_def word_greater_zero_iff split: option.splits)

text \<open>What \<^verbatim>\<open>Rescale\<close> does to the two fields.\<close>

lemma Rescale_value:
  "value (Rescale d m) =
     (if m = mantissa d then value d
      else if mantissa d < m then value d * 10 ^ unat (m - mantissa d)
      else value d div 10 ^ unat (mantissa d - m))"
  by (auto simp: Rescale_def ExpScale_int16_uint)

lemma Rescale_mantissa: "mantissa (Rescale d m) = m"
  by (auto simp: Rescale_def)

lemma Rescale_up_value:
  "mantissa d \<le> m \<Longrightarrow> value (Rescale d m) = value d * 10 ^ unat (m - mantissa d)"
  by (auto simp: Rescale_value)

text \<open>
  The alignment step shared by the comparisons, \<^verbatim>\<open>Add\<close>, \<^verbatim>\<open>Sub\<close> and \<^verbatim>\<open>Mul\<close>: after it
  both copies are at the larger of the two scales.
\<close>

lemma aligned_operands:
  "(if mantissa (NewDecimal (Some b)) > mantissa (NewDecimal (Some a))
    then (Rescale (NewDecimal (Some a)) (mantissa (NewDecimal (Some b))), NewDecimal (Some b))
    else if mantissa (NewDecimal (Some b)) < mantissa (NewDecimal (Some a))
    then (NewDecimal (Some a), Rescale (NewDecimal (Some b)) (mantissa (NewDecimal (Some a))))
    else (NewDecimal (Some a), NewDecimal (Some b))) =
   (Rescale a (max (mantissa a) (mantissa b)), Rescale b (max (mantissa a) (mantissa b)))"
  by (cases "mantissa a < mantissa b"; cases "mantissa b < mantissa a")
     (auto simp: NewDecimal_Some_id Rescale_def max_def)

lemma Eq_aligned:
  "Eq (Some a) (Some b) \<longleftrightarrow>
     value (Rescale a (max (mantissa a) (mantissa b))) =
     value (Rescale b (max (mantissa a) (mantissa b)))"
  by (simp add: Eq_def Let_def aligned_operands)

lemma Gt_aligned:
  "Gt (Some a) (Some b) \<longleftrightarrow>
     value (Rescale a (max (mantissa a) (mantissa b))) >
     value (Rescale b (max (mantissa a) (mantissa b)))"
  by (simp add: Gt_def Let_def aligned_operands)

lemma Lt_aligned:
  "Lt (Some a) (Some b) \<longleftrightarrow>
     value (Rescale a (max (mantissa a) (mantissa b))) <
     value (Rescale b (max (mantissa a) (mantissa b)))"
  by (simp add: Lt_def Let_def aligned_operands)

text \<open>
  Rescaling upwards keeps the represented value as long as the product fits 256 bits.
\<close>

lemma represented_aligned:
  assumes "mantissa d \<le> s"
    and "unat (value d) * 10 ^ unat (s - mantissa d) < 2 ^ 256"
  shows "represented d = of_nat (unat (value (Rescale d s))) / 10 ^ unat s"
proof -
  let ?k = "unat (s - mantissa d)"
  have k: "unat s = unat (mantissa d) + ?k"
    using assms(1) by (simp add: unat_sub word_le_nat_alt)
  have "unat (value (Rescale d s)) = unat (value d) * 10 ^ ?k mod 2 ^ 256"
    by (simp add: Rescale_up_value [OF assms(1)] unat_mult_pow10)
  also have "\<dots> = unat (value d) * 10 ^ ?k"
    using assms(2) by simp
  finally have u: "unat (value (Rescale d s)) = unat (value d) * 10 ^ ?k" .
  show ?thesis
    unfolding represented_def u by (subst k) (simp add: power_add)
qed

lemma represented_zero_iff: "represented d = 0 \<longleftrightarrow> value d = 0"
proof -
  have "(rat_of_nat n / 10 ^ k = 0) = (n = 0)" for n k :: nat
    by simp
  then show ?thesis
    unfolding represented_def by (simp only: unat_eq_0)
qed

text \<open>The guard of \<^verbatim>\<open>Div\<close> catches exactly the divisors whose represented value is zero.\<close>

lemma Eq_Zero_represented: "Eq (Some y) (Some Zero) \<longleftrightarrow> represented y = 0"
  by (simp add: Eq_Zero_iff NewDecimal_Some represented_zero_iff)

subsection \<open>Division by zero\<close>

text \<open>
  C1. For every receiver \<open>d\<close> and every divisor \<open>y\<close> that the \<^verbatim>\<open>Eq\<close> rule finds equal to
  the exact zero, \<^verbatim>\<open>d.Div(y)\<close> returns a new Decimal of magnitude 0 and scale 0 and leaves
  the receiver as it was. The result type has no error: nothing is signalled.
  By \<open>Eq_Zero_iff\<close> and \<open>Eq_Zero_represented\<close> these divisors are \<^verbatim>\<open>nil\<close> and the Decimals
  whose represented value is zero, that is of magnitude 0 at any scale.
\<close>

theorem Div_by_zero:
  "Eq y (Some Zero) \<Longrightarrow> Div d y = (Fresh \<lparr>value = 0, mantissa = 0\<rparr>, d)"
  by (simp add: Div_def NewDecimalZero_def)

theorem Div_by_zero_witness:
  "Eq (Some \<lparr>value = 0, mantissa = 3\<rparr>) (Some Zero) \<and>
   Div \<lparr>value = 5, mantissa = 0\<rparr> (Some \<lparr>value = 0, mantissa = 3\<rparr>) =
     (Fresh \<lparr>value = 0, mantissa = 0\<rparr>, \<lparr>value = 5, mantissa = 0\<rparr>)"
proof -
  have z: "Eq (Some \<lparr>value = 0, mantissa = 3\<rparr>) (Some Zero)"
    by (simp add: Eq_Zero_iff NewDecimal_def NewDecimalFromUint256_def)
  from z Div_by_zero [OF z, of "\<lparr>value = 5, mantissa = 0\<rparr>"] show ?thesis by simp
qed

subsection \<open>Multiplication\<close>

text \<open>
  C2, as the code has it. \<^verbatim>\<open>Mul\<close> first rescales copies of both operands to the larger
  scale \<open>s\<close> of the two, as \<^verbatim>\<open>Add\<close> and \<^verbatim>\<open>Sub\<close> do. The result's magnitude is the
  product of the two aligned magnitudes modulo \<open>2 ^ 256\<close>, and the result's scale is
  \<open>s + s\<close> in 8 bits, with no overflow check. The decimals parsed from "2.5" and "0.2"
  multiply to magnitude 50 with scale 2.
\<close>

theorem Mul_aligned:
  "(let s = max (mantissa a) (mantissa b);
        x = value (Rescale a s); y = value (Rescale b s)
    in x = value a * 10 ^ unat (s - mantissa a) \<and>
       y = value b * 10 ^ unat (s - mantissa b) \<and>
       Mul a (Some b) = \<lparr>value = x * y, mantissa = s + s\<rparr> \<and>
       unat (value (Mul a (Some b))) = unat x * unat y mod 2 ^ 256) \<and>
   NewDecimalFromString ''2.5'' = Some \<lparr>value = 25, mantissa = 1\<rparr> \<and>
   NewDecimalFromString ''0.2'' = Some \<lparr>value = 2, mantissa = 1\<rparr> \<and>
   Mul \<lparr>value = 25, mantissa = 1\<rparr> (Some \<lparr>value = 2, mantissa = 1\<rparr>) =
     \<lparr>value = 50, mantissa = 2\<rparr>"
proof -
  let ?s = "max (mantissa a) (mantissa b)"
  have 1: "Mul a (Some b) =
      \<lparr>value = value (Rescale a ?s) * value (Rescale b ?s), mantissa = ?s + ?s\<rparr>"
    by (simp add: Mul_def Let_def aligned_operands Rescale_mantissa)
  have 2: "unat (x * y) = unat x * unat y mod 2 ^ 256" for x y :: "256 word"
    by (simp add: unat_word_ariths)
  have 3: "value (Rescale a ?s) = value a * 10 ^ unat (?s - mantissa a)"
    by (rule Rescale_up_value) simp
  have 4: "value (Rescale b ?s) = value b * 10 ^ unat (?s - mantissa b)"
    by (rule Rescale_up_value) simp
  have 5: "NewDecimalFromString ''2.5'' = Some \<lparr>value = 25, mantissa = 1\<rparr>"
    by (simp add: codec_defs)
  have 6: "NewDecimalFromString ''0.2'' = Some \<lparr>value = 2, mantissa = 1\<rparr>"
    by (simp add: codec_defs)
  have 7: "Mul \<lparr>value = 25, mantissa = 1\<rparr> (Some \<lparr>value = 2, mantissa = 1\<rparr>) =
     \<lparr>value = 50, mantissa = 2\<rparr>"
    by (simp add: Mul_def NewDecimal_Some)
  show ?thesis
    unfolding Let_def using 1 2 3 4 5 6 7 by simp
qed

text \<open>
  The claim as written fails twice. On its own example the scale of the product is 2, not
  3. With operands of different scales the operands are rescaled before the product:
  2.5 (magnitude 25, scale 1) times 2 (magnitude 2, scale 0) gives magnitude 500 at scale
  2, not magnitude \<open>25 * 2\<close> at scale \<open>1 + 0\<close>.
\<close>

theorem Mul_counterexample:
  "NewDecimalFromString ''2.5'' = Some \<lparr>value = 25, mantissa = 1\<rparr> \<and>
   NewDecimalFromString ''0.2'' = Some \<lparr>value = 2, mantissa = 1\<rparr> \<and>
   mantissa (Mul \<lparr>value = 25, mantissa = 1\<rparr> (Some \<lparr>value = 2, mantissa = 1\<rparr>)) \<noteq> 3 \<and>
   Mul \<lparr>value = 25, mantissa = 1\<rparr> (Some \<lparr>value = 2, mantissa = 0\<rparr>) =
     \<lparr>value = 500, mantissa = 2\<rparr> \<and>
   Mul \<lparr>value = 25, mantissa = 1\<rparr> (Some \<lparr>value = 2, mantissa = 0\<rparr>) \<noteq>
     \<lparr>value = 25 * 2, mantissa = 1 + 0\<rparr>"
  by (simp add: codec_defs Mul_def NewDecimal_Some Rescale_def ExpScale_def int16_def)

subsection \<open>Division\<close>

text \<open>
  C3. For a dividend \<open>a\<close> and a divisor \<open>b\<close> that is not zero, let
  \<open>e = scale a - scale b - 20\<close> over the integers. \<^verbatim>\<open>Div\<close> writes into the receiver and
  returns it. If \<open>e < 0\<close> the dividend's magnitude is multiplied by \<open>10 ^ (- e)\<close> and the
  result's scale is 20; otherwise the divisor's magnitude is multiplied by \<open>10 ^ e\<close> and
  the result's scale is the dividend's. In both branches the result's magnitude is the
  truncating quotient of the two adjusted magnitudes as unsigned integers. The products
  are those of \<^verbatim>\<open>uint256\<close>, reduced modulo \<open>2 ^ 256\<close>; where the adjusted divisor wraps
  to 0 the quotient is 0, which is \<open>div\<close> on \<open>nat\<close> as well as \<^verbatim>\<open>uint256.Int.Div\<close>.
\<close>

theorem Div_general:
  assumes "\<not> Eq (Some b) (Some Zero)"
    and "e = int (unat (mantissa a)) - int (unat (mantissa b)) - 20"
  shows "fst (Div a (Some b)) = Receiver \<and>
    (if e < 0 then
       unat (value (snd (Div a (Some b)))) =
         (unat (value a) * 10 ^ nat (- e) mod 2 ^ 256) div unat (value b) \<and>
       mantissa (snd (Div a (Some b))) = 20
     else
       unat (value (snd (Div a (Some b)))) =
         unat (value a) div (unat (value b) * 10 ^ nat e mod 2 ^ 256) \<and>
       mantissa (snd (Div a (Some b))) = mantissa a)"
proof -
  have e: "e = uint (mantissa a) - uint (mantissa b) - uint defaultDivScale"
    using assms(2) by (simp add: defaultDivScale_def)
  have d20: "uint defaultDivScale = 20"
    by (simp add: defaultDivScale_def)
  have "uint (mantissa a) < 256" "uint (mantissa b) < 256"
    using uint_lt2p [of "mantissa a"] uint_lt2p [of "mantissa b"] by simp_all
  moreover have "0 \<le> uint (mantissa a)" "0 \<le> uint (mantissa b)"
    by simp_all
  ultimately have lo: "- 275 \<le> e" and hi: "e < 256"
    unfolding e d20 by linarith+
  have i1: "int16 e = e" using lo hi by (intro int16_id) simp_all
  have i2: "int16 (- e) = - e" using lo hi by (intro int16_id) simp_all
  have D: "Div a (Some b) =
      (Receiver,
       \<lparr>value = (if e < 0 then value a * ExpScale (int16 (- e)) else value a)
                 div (if e < 0 then value b else value b * ExpScale (int16 e)),
        mantissa = (if e < 0 then defaultDivScale else mantissa a)\<rparr>)"
    unfolding e using assms(1) by (simp add: Div_def Let_def NewDecimal_Some_id)
  show ?thesis
    by (cases "e < 0")
       (simp_all add: D i1 i2 ExpScale_def unat_div unat_mult_pow10 defaultDivScale_def)
qed

text \<open>
  Both branches: "1" / "3" (\<open>e = - 20\<close>), and a dividend of scale 25 by a divisor of
  scale 2 (\<open>e = 3\<close>).
\<close>

theorem Div_general_witness:
  "\<not> Eq (Some \<lparr>value = 3, mantissa = 0\<rparr>) (Some Zero) \<and>
   fst (Div \<lparr>value = 1, mantissa = 0\<rparr> (Some \<lparr>value = 3, mantissa = 0\<rparr>)) = Receiver \<and>
   unat (value (snd (Div \<lparr>value = 1, mantissa = 0\<rparr> (Some \<lparr>value = 3, mantissa = 0\<rparr>))))
     = 33333333333333333333 \<and>
   mantissa (snd (Div \<lparr>value = 1, mantissa = 0\<rparr> (Some \<lparr>value = 3, mantissa = 0\<rparr>))) = 20 \<and>
   \<not> Eq (Some \<lparr>value = 2, mantissa = 2\<rparr>) (Some Zero) \<and>
   fst (Div \<lparr>value = 123456789, mantissa = 25\<rparr> (Some \<lparr>value = 2, mantissa = 2\<rparr>)) = Receiver \<and>
   unat (value (snd (Div \<lparr>value = 123456789, mantissa = 25\<rparr> (Some \<lparr>value = 2, mantissa = 2\<rparr>))))
     = 61728 \<and>
   mantissa (snd (Div \<lparr>value = 123456789, mantissa = 25\<rparr> (Some \<lparr>value = 2, mantissa = 2\<rparr>))) = 25"
proof -
  have h1: "\<not> Eq (Some \<lparr>value = 3, mantissa = 0\<rparr>) (Some Zero)"
    by (simp add: Eq_Zero_iff NewDecimal_Some)
  have h2: "\<not> Eq (Some \<lparr>value = 2, mantissa = 2\<rparr>) (Some Zero)"
    by (simp add: Eq_Zero_iff NewDecimal_Some)
  note t1 = Div_general [OF h1 refl, of "\<lparr>value = 1, mantissa = 0\<rparr>"]
  note t2 = Div_general [OF h2 refl, of "\<lparr>value = 123456789, mantissa = 25\<rparr>"]
  from h1 h2 t1 t2 show ?thesis by simp
qed

subsection \<open>Parsing\<close>

text \<open>The library conversion in closed form: the value is \<open>b\<close> modulo \<open>2 ^ 256\<close>.\<close>

lemma uint256_SetFromBig_eq:
  "uint256_SetFromBig b = (word_of_int b, 2 ^ 256 \<le> \<bar>b\<bar>)"
proof (cases "b < 0")
  case True
  then have "0 \<le> - b" and "\<bar>b\<bar> = - b" by simp_all
  then have "(of_nat (nat \<bar>b\<bar>) :: 256 word) = word_of_int (- b)"
    using word_of_int_nat [of "- b", where 'a = 256] by (simp only:)
  also have "\<dots> = - word_of_int b"
    by (simp only: wi_hom_neg)
  finally show ?thesis
    using True by (simp only: uint256_SetFromBig_def Let_def if_True minus_minus)
next
  case False
  then have "0 \<le> b" and "\<bar>b\<bar> = b" by simp_all
  then have "(of_nat (nat \<bar>b\<bar>) :: 256 word) = word_of_int b"
    using word_of_int_nat [of b, where 'a = 256] by (simp only:)
  with False show ?thesis
    by (simp only: uint256_SetFromBig_def Let_def if_False)
qed

text \<open>
  The shape of \<^verbatim>\<open>FromString\<close> on a non-empty input, and what a failing call leaves in the
  receiver: the scale is never touched, and the magnitude is written on one path only,
  the overflow of the parsed number.
\<close>

lemma FromString_parsed:
  assumes "s \<noteq> []"
  shows "\<exists>parsed. FromString d s =
    (case parsed of
       None \<Rightarrow> (False, d)
     | Some (None, m) \<Rightarrow> (False, d)
     | Some (Some valBig, m) \<Rightarrow>
         if 2 ^ 256 \<le> \<bar>valBig\<bar> then (False, d\<lparr>value := word_of_int valBig\<rparr>)
         else (True, \<lparr>value = word_of_int valBig, mantissa = m\<rparr>))"
proof -
  have tail: "(let (v, overflow) = uint256_SetFromBig valBig; d = d\<lparr>value := v\<rparr>
               in if overflow then (False, d) else (True, d\<lparr>mantissa := m\<rparr>)) =
              (if 2 ^ 256 \<le> \<bar>valBig\<bar> then (False, d\<lparr>value := word_of_int valBig\<rparr>)
               else (True, \<lparr>value = word_of_int valBig, mantissa = m\<rparr>))" for valBig m
    by (simp only: uint256_SetFromBig_eq Let_def prod.case) simp
  show ?thesis
    unfolding FromString_def tail using assms
    by (simp only: if_False Let_def) (rule exI, rule refl)
qed

lemma FromString_failure_frame:
  assumes "FromString d s = (False, d')"
  shows "mantissa d' = mantissa d \<and>
         (d' = d \<or> (\<exists>v. 2 ^ 256 \<le> \<bar>v\<bar> \<and> d' = d\<lparr>value := word_of_int v\<rparr>))"
proof (cases "s = []")
  case True
  with assms show ?thesis by (simp add: FromString_def)
next
  case False
  from FromString_parsed [OF False, of d] obtain parsed where
    F: "FromString d s =
    (case parsed of
       None \<Rightarrow> (False, d)
     | Some (None, m) \<Rightarrow> (False, d)
     | Some (Some valBig, m) \<Rightarrow>
         if 2 ^ 256 \<le> \<bar>valBig\<bar> then (False, d\<lparr>value := word_of_int valBig\<rparr>)
         else (True, \<lparr>value = word_of_int valBig, mantissa = m\<rparr>))" ..
  show ?thesis
  proof (cases parsed)
    case None
    with F assms show ?thesis by simp
  next
    case (Some p)
    obtain r m where p: "p = (r, m)" by (cases p)
    show ?thesis
    proof (cases r)
      case None
      with F assms Some p show ?thesis by simp
    next
      case (Some valBig)
      with F assms \<open>parsed = Some p\<close> p
      have "2 ^ 256 \<le> \<bar>valBig\<bar>" and "d' = d\<lparr>value := word_of_int valBig\<rparr>"
        by (simp_all split: if_splits)
      then show ?thesis by auto
    qed
  qed
qed

text \<open>
  What the parser rejects. The pieces of \<^verbatim>\<open>strings.Split\<close>, the digit scanner and the
  loop over the trailing zeros first.
\<close>

lemma Split_not_Nil: "Split s \<noteq> []"
  by (induction s) (auto split: list.splits)

lemma length_Split: "length (Split s) = Suc (count_list s (CHR ''.''))"
  by (induction s) (auto split: list.splits simp: Split_not_Nil)

lemma concat_Split: "concat (Split s) = filter (\<lambda>c. c \<noteq> CHR ''.'') s"
  by (induction s) (auto split: list.splits simp: Split_not_Nil)

lemma scan_digits_bad: "c \<in> set r \<Longrightarrow> digit c = None \<Longrightarrow> scan_digits r z = None"
  by (induction r arbitrary: z) (auto split: option.splits)

lemma big_SetString_bad:
  assumes "c \<in> set s" "digit c = None" "c \<noteq> CHR ''-''" "c \<noteq> CHR ''+''"
  shows "big_SetString s = None"
proof (cases s)
  case Nil
  with assms show ?thesis by simp
next
  case (Cons ch r)
  show ?thesis
  proof (cases "ch = CHR ''-'' \<or> ch = CHR ''+''")
    case True
    with assms Cons have "c \<in> set r" by auto
    then have "scan_digits r 0 = None" using assms(2) by (rule scan_digits_bad)
    with True Cons show ?thesis by (auto simp: big_SetString_def)
  next
    case False
    have "scan_digits s 0 = None" using assms(1,2) by (rule scan_digits_bad)
    with False Cons show ?thesis by (auto simp: big_SetString_def)
  qed
qed

lemma drop_zeros_suffix:
  "drop_zeros p z < i \<Longrightarrow> i \<le> z \<Longrightarrow> p ! nat i = CHR ''0''"
proof (induction p z rule: drop_zeros.induct)
  case (1 p z)
  show ?case
  proof (cases "z \<ge> 0 \<and> p ! nat z = CHR ''0''")
    case True
    then have dz: "drop_zeros p z = drop_zeros p (z - 1)"
      by (subst drop_zeros.simps) (simp only: simp_thms if_True)
    show ?thesis
    proof (cases "i = z")
      case True
      with \<open>z \<ge> 0 \<and> p ! nat z = CHR ''0''\<close> show ?thesis by simp
    next
      case False
      with "1.prems" dz have "drop_zeros p (z - 1) < i" "i \<le> z - 1" by simp_all
      with "1.IH" True show ?thesis by blast
    qed
  next
    case False
    then have "drop_zeros p z = z"
      by (subst drop_zeros.simps) (simp only: if_False)
    with "1.prems" show ?thesis by simp
  qed
qed

lemma in_take_drop_zeros:
  assumes "c \<in> set p" "c \<noteq> CHR ''0''"
  shows "c \<in> set (take (nat (drop_zeros p (int (length p) - 1) + 1)) p)"
proof -
  from assms(1) obtain i where i: "i < length p" "p ! i = c"
    by (auto simp: in_set_conv_nth)
  let ?dz = "drop_zeros p (int (length p) - 1)"
  have "\<not> ?dz < int i"
  proof
    assume "?dz < int i"
    moreover have "int i \<le> int (length p) - 1" using i(1) by simp
    ultimately have "p ! nat (int i) = CHR ''0''" by (rule drop_zeros_suffix)
    with i(2) assms(2) show False by simp
  qed
  then have "i < nat (?dz + 1)" by simp
  with i show ?thesis by (auto simp: in_set_conv_nth)
qed

lemma FromString_many_parts:
  "s \<noteq> [] \<Longrightarrow> length (Split s) > 2 \<Longrightarrow> FromString d s = (False, d)"
  by (simp add: FromString_def)

lemma FromString_one_part_None:
  "s \<noteq> [] \<Longrightarrow> length (Split s) = 1 \<Longrightarrow> big_SetString s = None \<Longrightarrow>
   FromString d s = (False, d)"
  by (simp add: FromString_def)

lemma FromString_long_fraction:
  "s \<noteq> [] \<Longrightarrow> Split s = [p0, p1] \<Longrightarrow> length p1 > 255 \<Longrightarrow> FromString d s = (False, d)"
  by (simp add: FromString_def)

lemma FromString_two_parts_None:
  "s \<noteq> [] \<Longrightarrow> Split s = [p0, p1] \<Longrightarrow> \<not> length p1 > 255 \<Longrightarrow>
   big_SetString (p0 @ take (nat (drop_zeros p1 (int (length p1) - 1) + 1)) p1) = None \<Longrightarrow>
   FromString d s = (False, d)"
  by (simp add: FromString_def Let_def)

lemma FromString_two_dots:
  "2 \<le> count_list s (CHR ''.'') \<Longrightarrow> FromString d s = (False, d)"
  by (rule FromString_many_parts) (auto simp: length_Split)

lemma FromString_rejects_other_bytes:
  assumes "c \<in> set s" "digit c = None"
    and "c \<noteq> CHR ''.''" "c \<noteq> CHR ''+''" "c \<noteq> CHR ''-''"
  shows "FromString d s = (False, d)"
proof -
  have ne: "s \<noteq> []" using assms(1) by auto
  have c0: "c \<noteq> CHR ''0''" using assms(2) by (auto simp: digit_def)
  have whole: "big_SetString s = None"
    using assms(1,2,5,4) by (rule big_SetString_bad)
  have "length (Split s) \<noteq> 0" by (simp add: Split_not_Nil)
  then consider "length (Split s) > 2" | "length (Split s) = 1" | "length (Split s) = 2"
    by linarith
  then show ?thesis
  proof cases
    case 1
    with ne show ?thesis by (rule FromString_many_parts)
  next
    case 2
    with ne show ?thesis using whole by (rule FromString_one_part_None)
  next
    case 3
    then obtain p0 p1 where parts: "Split s = [p0, p1]"
      by (cases "Split s"; cases "tl (Split s)") auto
    show ?thesis
    proof (cases "length p1 > 255")
      case True
      with ne parts show ?thesis by (rule FromString_long_fraction)
    next
      case False
      let ?t = "take (nat (drop_zeros p1 (int (length p1) - 1) + 1)) p1"
      have "c \<in> set (concat (Split s))"
        using assms(1,3) by (simp add: concat_Split)
      with parts have "c \<in> set p0 \<union> set p1" by simp
      then have "c \<in> set (p0 @ ?t)"
        using in_take_drop_zeros [OF _ c0, of p1] by auto
      then have "big_SetString (p0 @ ?t) = None"
        using assms(2,5,4) by (rule big_SetString_bad)
      with ne parts False show ?thesis by (rule FromString_two_parts_None)
    qed
  qed
qed

lemma FromString_empty: "FromString d [] = (True, d\<lparr>value := 0\<rparr>)"
  by (simp add: FromString_def)

text \<open>
  C4. The claim: a failing \<^verbatim>\<open>FromString\<close> leaves the receiver's magnitude and scale as
  they were, also when it fails because the digit string exceeds 256 bits. The code
  breaks it on that very path: \<^verbatim>\<open>d.value.SetFromBig(valBig)\<close> has already written the
  low 256 bits of the parsed number into the receiver when it reports the overflow. With
  the receiver at magnitude 5, scale 2, the input \<open>2 ^ 256 + 7\<close> in decimal returns
  \<^verbatim>\<open>false\<close> and leaves magnitude 7. On every other failing path the receiver is as it
  was (\<open>FromString_failure_frame\<close>).
\<close>

theorem FromString_overflow_writes:
  "FromString \<lparr>value = 5, mantissa = 2\<rparr>
     ''115792089237316195423570985008687907853269984665640564039457584007913129639943''
   = (False, \<lparr>value = 7, mantissa = 2\<rparr>)"
  by (simp add: codec_defs)

text \<open>
  C6. The claim: every input with a character other than digits and at most one dot, a
  sign in particular, is rejected. The code passes the text to \<^verbatim>\<open>big.Int.SetString\<close>,
  which reads a leading \<^verbatim>\<open>+\<close> or \<^verbatim>\<open>-\<close>, and \<^verbatim>\<open>SetFromBig\<close> reports no overflow for a
  negative number of fewer than 257 bits: "-5" is accepted with magnitude \<open>2 ^ 256 - 5\<close>,
  "+5" with magnitude 5, "-.5" with magnitude \<open>2 ^ 256 - 5\<close> at scale 1. An input with
  two dots or more, or with a byte that is no digit, dot or sign, is rejected
  (\<open>FromString_two_dots\<close>, \<open>FromString_rejects_other_bytes\<close>).
\<close>

theorem FromString_accepts_sign:
  "FromString NewDecimalZero ''-5'' = (True, \<lparr>value = - 5, mantissa = 0\<rparr>) \<and>
   unat (value (snd (FromString NewDecimalZero ''-5''))) = 2 ^ 256 - 5 \<and>
   FromString NewDecimalZero ''+5'' = (True, \<lparr>value = 5, mantissa = 0\<rparr>) \<and>
   FromString NewDecimalZero ''-.5'' = (True, \<lparr>value = - 5, mantissa = 1\<rparr>)"
  by (simp add: codec_defs)

text \<open>
  C7. The claim: on any receiver \<^verbatim>\<open>d.FromString("")\<close> succeeds and leaves exact zero with
  scale 0. The code returns early after replacing \<^verbatim>\<open>d.value\<close> only
  (\<open>FromString_empty\<close>): the scale stays what it was (3 below), whereas the path through
  the parser, on "0", sets it to 0.
\<close>

theorem FromString_empty_keeps_scale:
  "FromString \<lparr>value = 7, mantissa = 3\<rparr> [] = (True, \<lparr>value = 0, mantissa = 3\<rparr>) \<and>
   FromString \<lparr>value = 7, mantissa = 3\<rparr> ''0'' = (True, \<lparr>value = 0, mantissa = 0\<rparr>)"
  by (simp add: codec_defs)

subsection \<open>Conversion from a 64-bit unsigned integer\<close>

lemma NewDecimalFromUint64_eq:
  "NewDecimalFromUint64 v = \<lparr>value = word_of_int (sint v), mantissa = 0\<rparr>"
  by (simp add: NewDecimalFromUint64_def SetFromBig_def SetMantissa_def big_NewInt_def
      uint256_SetFromBig_eq NewDecimalZero_def)

lemma sint_uint64: "sint (v :: 64 word) = (uint v + 2 ^ 63) mod 2 ^ 64 - 2 ^ 63"
proof -
  have "sint (word_of_int (uint v) :: 64 word) =
      (uint v + 2 ^ (LENGTH(64) - 1)) mod 2 ^ LENGTH(64) - 2 ^ (LENGTH(64) - 1)"
    by (rule int_word_sint)
  then have "sint v = (uint v + 2 ^ (LENGTH(64) - 1)) mod 2 ^ LENGTH(64) - 2 ^ (LENGTH(64) - 1)"
    by (simp only: word_of_int_uint)
  moreover have "LENGTH(64) = 64" "LENGTH(64) - 1 = 63" by simp_all
  ultimately show ?thesis by (simp only:)
qed

lemma unat_word_of_int_256: "unat (word_of_int k :: 256 word) = nat (k mod 2 ^ 256)"
  by (simp add: unat_eq_nat_uint uint_word_of_int)

text \<open>Below \<open>2 ^ 63\<close> the conversion is exact; from \<open>2 ^ 63\<close> on it is off by \<open>2 ^ 256 - 2 ^ 64\<close>.\<close>

lemma NewDecimalFromUint64_small:
  assumes "v < 2 ^ 63"
  shows "unat (value (NewDecimalFromUint64 v)) = unat v"
proof -
  have 1: "uint v < 2 ^ 63" using assms by (simp add: word_less_def)
  have 0: "0 \<le> uint v" by simp
  have s: "sint v = uint v"
    unfolding sint_uint64 using 0 1 by (simp add: mod_pos_pos_trivial)
  have m: "uint v mod 2 ^ 256 = uint v"
    using 0 1 by (intro mod_pos_pos_trivial) simp_all
  have "unat (value (NewDecimalFromUint64 v)) = nat (uint v mod 2 ^ 256)"
    by (simp only: NewDecimalFromUint64_eq s unat_word_of_int_256 Decimal.select_convs)
  also have "\<dots> = unat v"
    by (simp only: m nat_uint_eq)
  finally show ?thesis .
qed

lemma NewDecimalFromUint64_wraps:
  assumes "2 ^ 63 \<le> v"
  shows "unat (value (NewDecimalFromUint64 v)) = 2 ^ 256 - 2 ^ 64 + unat v"
proof -
  have 1: "2 ^ 63 \<le> uint v" using assms by (simp add: word_le_def)
  have 2: "uint v < 2 ^ 64" using uint_lt2p [of v] by simp
  have "(uint v + 2 ^ 63) mod 2 ^ 64 = uint v + 2 ^ 63 - 2 ^ 64"
    using 1 2 by (simp add: mod_pos_geq mod_pos_pos_trivial)
  then have s: "sint v = uint v - 2 ^ 64"
    unfolding sint_uint64 by simp
  have "(uint v - 2 ^ 64) mod 2 ^ 256 = (uint v - 2 ^ 64 + 2 ^ 256) mod 2 ^ 256"
    by (simp only: mod_add_self2)
  also have "\<dots> = uint v - 2 ^ 64 + 2 ^ 256"
    using 1 2 by (intro mod_pos_pos_trivial) simp_all
  finally have "unat (value (NewDecimalFromUint64 v)) = nat (uint v - 2 ^ 64 + 2 ^ 256)"
    by (simp only: NewDecimalFromUint64_eq s unat_word_of_int_256 Decimal.select_convs)
  also have "\<dots> = 2 ^ 256 - 2 ^ 64 + nat (uint v)"
    using 1 by (simp add: nat_add_distrib nat_diff_distrib)
  also have "nat (uint v) = unat v"
    by (simp only: nat_uint_eq)
  finally show ?thesis .
qed

text \<open>
  C5. The claim: \<^verbatim>\<open>NewDecimalFromUint64(v)\<close> has scale 0 and magnitude \<open>v\<close> for every
  \<open>v\<close>, also above \<open>2 ^ 63 - 1\<close>. The code converts \<open>v\<close> to \<^verbatim>\<open>int64\<close> first, so from
  \<open>2 ^ 63\<close> on the \<^verbatim>\<open>big.Int\<close> is negative and the magnitude wraps
  (\<open>NewDecimalFromUint64_wraps\<close>): for \<open>v = 2 ^ 63\<close> it is \<open>2 ^ 256 - 2 ^ 63\<close>.
\<close>

theorem NewDecimalFromUint64_large:
  "unat (value (NewDecimalFromUint64 9223372036854775808)) = 2 ^ 256 - 2 ^ 63 \<and>
   mantissa (NewDecimalFromUint64 9223372036854775808) = 0 \<and>
   unat (value (NewDecimalFromUint64 9223372036854775808)) \<noteq> 9223372036854775808"
  by (simp add: NewDecimalFromUint64_def SetFromBig_def SetMantissa_def big_NewInt_def
      uint256_SetFromBig_def NewDecimalZero_def Let_def)

subsection \<open>Comparison\<close>

text \<open>
  On the store: copying a Decimal allocates, and leaves every object that was there
  before as it was.
\<close>

lemma load_SomeD:
  assumes "load s p = Some a"
  shows "\<exists>r. p < length (decs s) \<and> decs s ! p = (Some r, mantissa a) \<and>
             r < length (ints s) \<and> ints s ! r = value a"
  using assms
  by (auto simp: load_def get_dec_def get_int_def split: if_splits prod.splits option.splits
      Option.bind_splits)

lemma NewDecimal_st_Some:
  assumes "load s p = Some a"
  shows "NewDecimal_st (Some p) s =
     Some (length (decs s),
           s\<lparr>ints := ints s @ [value a],
             decs := decs s @ [(Some (length (ints s)), mantissa a)]\<rparr>)"
proof -
  from load_SomeD [OF assms] obtain r where
    "p < length (decs s)" "decs s ! p = (Some r, mantissa a)"
    "r < length (ints s)" "ints s ! r = value a" by blast
  then show ?thesis
    by (simp add: NewDecimal_st_def NewDecimalFromUint256_st_def new_int_def new_dec_def
        get_dec_def get_int_def nth_append)
qed

lemma load_append:
  assumes "load s p = Some a"
  shows "load (s\<lparr>ints := ints s @ xs, decs := decs s @ ys\<rparr>) p = Some a"
proof -
  from load_SomeD [OF assms] obtain r where
    "p < length (decs s)" "decs s ! p = (Some r, mantissa a)"
    "r < length (ints s)" "ints s ! r = value a" by blast
  then show ?thesis
    by (simp add: load_def get_dec_def get_int_def nth_append)
qed

text \<open>
  The comparison of two Decimals at \<open>d\<close> and \<open>y\<close> (the same pointer or not) returns what
  the value model computes from their states, and writes to fresh objects only.
\<close>

lemma compare_st_aligned:
  assumes a: "load s d = Some a" and b: "load s y = Some b"
  shows "\<exists>s'. compare_st rel (Some d) (Some y) s =
           Some (rel (value (Rescale a (max (mantissa a) (mantissa b))))
                     (value (Rescale b (max (mantissa a) (mantissa b)))), s') \<and>
           take (length (ints s)) (ints s') = ints s \<and>
           take (length (decs s)) (decs s') = decs s"
proof -
  note 1 = NewDecimal_st_Some [OF a]
  note 2 = NewDecimal_st_Some [OF load_append [OF b]]
  show ?thesis
    unfolding compare_st_def
    by (cases "mantissa a < mantissa b"; cases "mantissa b < mantissa a")
       (auto simp: 1 2 get_dec_def get_int_def Rescale_st_def Rescale_def nth_append
          max_def list_update_append)
qed


lemma load_frame:
  assumes "load s p = Some a"
    and "take (length (ints s)) (ints s') = ints s"
    and "take (length (decs s)) (decs s') = decs s"
  shows "load s' p = Some a"
proof -
  from load_SomeD [OF assms(1)] obtain r where
    r: "p < length (decs s)" "decs s ! p = (Some r, mantissa a)"
       "r < length (ints s)" "ints s ! r = value a" by blast
  have li: "length (ints s) \<le> length (ints s')"
    using arg_cong [OF assms(2), of length] by simp
  have ld: "length (decs s) \<le> length (decs s')"
    using arg_cong [OF assms(3), of length] by simp
  have "ints s' ! r = ints s ! r"
    using r(3) nth_take [of r "length (ints s)" "ints s'"] assms(2) by simp
  moreover have "decs s' ! p = decs s ! p"
    using r(1) nth_take [of p "length (decs s)" "decs s'"] assms(3) by simp
  ultimately show ?thesis
    using r li ld by (simp add: load_def get_dec_def get_int_def)
qed

lemma compare_st_refines:
  assumes a: "load s d = Some a" and b: "load s y = Some b"
  shows "\<exists>s'. compare_st rel (Some d) (Some y) s =
           Some (rel (value (Rescale a (max (mantissa a) (mantissa b))))
                     (value (Rescale b (max (mantissa a) (mantissa b)))), s') \<and>
           load s' d = Some a \<and> load s' y = Some b"
  using compare_st_aligned [OF a b, of rel] load_frame [OF a] load_frame [OF b]
  by blast

text \<open>Where the alignment does not overflow, aligned magnitudes compare as the values do.\<close>

lemma comparisons_represented:
  assumes "unat (value a) * 10 ^ unat (max (mantissa a) (mantissa b) - mantissa a) < 2 ^ 256"
    and "unat (value b) * 10 ^ unat (max (mantissa a) (mantissa b) - mantissa b) < 2 ^ 256"
  shows "(value (Rescale a (max (mantissa a) (mantissa b))) =
          value (Rescale b (max (mantissa a) (mantissa b)))) = (represented a = represented b)"
    and "(value (Rescale a (max (mantissa a) (mantissa b))) >
          value (Rescale b (max (mantissa a) (mantissa b)))) = (represented a > represented b)"
    and "(value (Rescale a (max (mantissa a) (mantissa b))) <
          value (Rescale b (max (mantissa a) (mantissa b)))) = (represented a < represented b)"
proof -
  let ?s = "max (mantissa a) (mantissa b)"
  have ra: "represented a = of_nat (unat (value (Rescale a ?s))) / 10 ^ unat ?s"
    by (rule represented_aligned [OF _ assms(1)]) simp
  have rb: "represented b = of_nat (unat (value (Rescale b ?s))) / 10 ^ unat ?s"
    by (rule represented_aligned [OF _ assms(2)]) simp
  have g1: "(rat_of_nat m / 10 ^ k = rat_of_nat n / 10 ^ k) = (m = n)" for m n k :: nat
    by simp
  have g2: "(rat_of_nat m / 10 ^ k < rat_of_nat n / 10 ^ k) = (m < n)" for m n k :: nat
    by (simp add: divide_less_cancel)
  show "(value (Rescale a ?s) = value (Rescale b ?s)) = (represented a = represented b)"
    by (simp only: ra rb g1 word_unat_eq_iff)
  show "(value (Rescale a ?s) > value (Rescale b ?s)) = (represented a > represented b)"
    by (simp only: ra rb g2 word_less_nat_alt)
  show "(value (Rescale a ?s) < value (Rescale b ?s)) = (represented a < represented b)"
    by (simp only: ra rb g2 word_less_nat_alt)
qed

text \<open>
  C8, as the code has it. For all Decimals \<open>a\<close> and \<open>b\<close> (at the pointers \<open>d\<close> and \<open>y\<close> of
  a store) such that rescaling to the larger of the two scales does not overflow 256 bits
  (magnitude times \<open>10 ^ (scale difference)\<close> stays below \<open>2 ^ 256\<close>; for the operand that
  already has the larger scale this always holds), \<^verbatim>\<open>Eq\<close>, \<^verbatim>\<open>Gt\<close> and \<^verbatim>\<open>Lt\<close> return the
  truth of the corresponding relation between the represented values
  magnitude / 10 ^ scale, and neither operand is mutated: in the store after the call
  both load as before. The last three lines say the same of the value model.
\<close>

theorem comparisons_scale_invariant:
  assumes "load s d = Some a" and "load s y = Some b"
    and "unat (value a) * 10 ^ unat (max (mantissa a) (mantissa b) - mantissa a) < 2 ^ 256"
    and "unat (value b) * 10 ^ unat (max (mantissa a) (mantissa b) - mantissa b) < 2 ^ 256"
  shows "(\<exists>s'. Eq_st (Some d) (Some y) s = Some (represented a = represented b, s') \<and>
               load s' d = Some a \<and> load s' y = Some b) \<and>
         (\<exists>s'. Gt_st (Some d) (Some y) s = Some (represented a > represented b, s') \<and>
               load s' d = Some a \<and> load s' y = Some b) \<and>
         (\<exists>s'. Lt_st (Some d) (Some y) s = Some (represented a < represented b, s') \<and>
               load s' d = Some a \<and> load s' y = Some b) \<and>
         (Eq (Some a) (Some b) \<longleftrightarrow> represented a = represented b) \<and>
         (Gt (Some a) (Some b) \<longleftrightarrow> represented a > represented b) \<and>
         (Lt (Some a) (Some b) \<longleftrightarrow> represented a < represented b)"
  unfolding Eq_st_def Gt_st_def Lt_st_def Eq_aligned Gt_aligned Lt_aligned
  using compare_st_refines [OF assms(1,2), of "\<lambda>x y. x = y"]
    compare_st_refines [OF assms(1,2), of "\<lambda>x y. x > y"]
    compare_st_refines [OF assms(1,2), of "\<lambda>x y. x < y"]
  by (simp only: comparisons_represented [OF assms(3,4)] simp_thms)

text \<open>1.50 against 1.5, and 2 against 1.5.\<close>

theorem comparisons_scale_invariant_witness:
  "load \<lparr>ints = [150, 15, 2], decs = [(Some 0, 2), (Some 1, 1), (Some 2, 0)]\<rparr> 0
     = Some \<lparr>value = 150, mantissa = 2\<rparr> \<and>
   load \<lparr>ints = [150, 15, 2], decs = [(Some 0, 2), (Some 1, 1), (Some 2, 0)]\<rparr> 1
     = Some \<lparr>value = 15, mantissa = 1\<rparr> \<and>
   load \<lparr>ints = [150, 15, 2], decs = [(Some 0, 2), (Some 1, 1), (Some 2, 0)]\<rparr> 2
     = Some \<lparr>value = 2, mantissa = 0\<rparr> \<and>
   unat (150 :: 256 word) * 10 ^ unat (max 2 1 - 2 :: 8 word) < 2 ^ 256 \<and>
   unat (15 :: 256 word) * 10 ^ unat (max 2 1 - 1 :: 8 word) < 2 ^ 256 \<and>
   unat (2 :: 256 word) * 10 ^ unat (max 0 1 - 0 :: 8 word) < 2 ^ 256 \<and>
   unat (15 :: 256 word) * 10 ^ unat (max 0 1 - 1 :: 8 word) < 2 ^ 256 \<and>
   map_option fst (Eq_st (Some 0) (Some 1)
     \<lparr>ints = [150, 15, 2], decs = [(Some 0, 2), (Some 1, 1), (Some 2, 0)]\<rparr>) = Some True \<and>
   Eq (Some \<lparr>value = 150, mantissa = 2\<rparr>) (Some \<lparr>value = 15, mantissa = 1\<rparr>) \<and>
   represented \<lparr>value = 150, mantissa = 2\<rparr> = represented \<lparr>value = 15, mantissa = 1\<rparr> \<and>
   map_option fst (Gt_st (Some 2) (Some 1)
     \<lparr>ints = [150, 15, 2], decs = [(Some 0, 2), (Some 1, 1), (Some 2, 0)]\<rparr>) = Some True \<and>
   Gt (Some \<lparr>value = 2, mantissa = 0\<rparr>) (Some \<lparr>value = 15, mantissa = 1\<rparr>) \<and>
   map_option fst (Lt_st (Some 2) (Some 1)
     \<lparr>ints = [150, 15, 2], decs = [(Some 0, 2), (Some 1, 1), (Some 2, 0)]\<rparr>) = Some False \<and>
   \<not> Lt (Some \<lparr>value = 2, mantissa = 0\<rparr>) (Some \<lparr>value = 15, mantissa = 1\<rparr>) \<and>
   represented \<lparr>value = 2, mantissa = 0\<rparr> > represented \<lparr>value = 15, mantissa = 1\<rparr>"
proof -
  let ?s = "\<lparr>ints = [150, 15, 2], decs = [(Some 0, 2), (Some 1, 1), (Some 2, 0)]\<rparr>"
  have l0: "load ?s 0 = Some \<lparr>value = 150, mantissa = 2\<rparr>"
    and l1: "load ?s 1 = Some \<lparr>value = 15, mantissa = 1\<rparr>"
    and l2: "load ?s 2 = Some \<lparr>value = 2, mantissa = 0\<rparr>"
    by (simp_all add: load_def get_dec_def get_int_def)
  have h1: "unat (150 :: 256 word) * 10 ^ unat (max 2 1 - 2 :: 8 word) < 2 ^ 256"
    and h2: "unat (15 :: 256 word) * 10 ^ unat (max 2 1 - 1 :: 8 word) < 2 ^ 256"
    and h3: "unat (2 :: 256 word) * 10 ^ unat (max 0 1 - 0 :: 8 word) < 2 ^ 256"
    and h4: "unat (15 :: 256 word) * 10 ^ unat (max 0 1 - 1 :: 8 word) < 2 ^ 256"
    by simp_all
  have r1: "represented \<lparr>value = 150, mantissa = 2\<rparr> = represented \<lparr>value = 15, mantissa = 1\<rparr>"
    by (simp add: represented_def)
  have r2: "represented \<lparr>value = 2, mantissa = 0\<rparr> > represented \<lparr>value = 15, mantissa = 1\<rparr>"
    by (simp add: represented_def)
  have r3: "\<not> represented \<lparr>value = 2, mantissa = 0\<rparr> < represented \<lparr>value = 15, mantissa = 1\<rparr>"
    by (simp add: represented_def)
  note t1 = comparisons_scale_invariant [OF l0 l1]
  note t2 = comparisons_scale_invariant [OF l2 l1]
  have e: "map_option fst (Eq_st (Some 0) (Some 1) ?s) = Some True"
    "Eq (Some \<lparr>value = 150, mantissa = 2\<rparr>) (Some \<lparr>value = 15, mantissa = 1\<rparr>)"
    using t1 r1 by auto
  have g: "map_option fst (Gt_st (Some 2) (Some 1) ?s) = Some True"
    "Gt (Some \<lparr>value = 2, mantissa = 0\<rparr>) (Some \<lparr>value = 15, mantissa = 1\<rparr>)"
    "map_option fst (Lt_st (Some 2) (Some 1) ?s) = Some False"
    "\<not> Lt (Some \<lparr>value = 2, mantissa = 0\<rparr>) (Some \<lparr>value = 15, mantissa = 1\<rparr>)"
    using t2 r2 r3 by auto
  from l0 l1 l2 h1 h2 h3 h4 e g r1 r2 show ?thesis by blast
qed

text \<open>
  Without the bound the claim fails: rescaling \<open>2 ^ 255\<close> from scale 0 to scale 1 wraps to
  0, so \<^verbatim>\<open>Eq\<close> finds \<open>2 ^ 255\<close> equal to 0.0 and \<^verbatim>\<open>Lt\<close> finds it less than 0.1.
\<close>

theorem comparisons_counterexample:
  "map_option fst (Eq_st (Some 0) (Some 1)
     \<lparr>ints = [2 ^ 255, 0], decs = [(Some 0, 0), (Some 1, 1)]\<rparr>) = Some True \<and>
   Eq (Some \<lparr>value = 2 ^ 255, mantissa = 0\<rparr>) (Some \<lparr>value = 0, mantissa = 1\<rparr>) \<and>
   represented \<lparr>value = 2 ^ 255, mantissa = 0\<rparr> \<noteq> represented \<lparr>value = 0, mantissa = 1\<rparr> \<and>
   Lt (Some \<lparr>value = 2 ^ 255, mantissa = 0\<rparr>) (Some \<lparr>value = 1, mantissa = 1\<rparr>) \<and>
   \<not> represented \<lparr>value = 2 ^ 255, mantissa = 0\<rparr> < represented \<lparr>value = 1, mantissa = 1\<rparr>"
proof -
  let ?s = "\<lparr>ints = [2 ^ 255, 0], decs = [(Some 0, 0), (Some 1, 1)]\<rparr>"
  have l0: "load ?s 0 = Some \<lparr>value = 2 ^ 255, mantissa = 0\<rparr>"
    and l1: "load ?s 1 = Some \<lparr>value = 0, mantissa = 1\<rparr>"
    by (simp_all add: load_def get_dec_def get_int_def)
  have "map_option fst (Eq_st (Some 0) (Some 1) ?s) = Some True"
    using compare_st_refines [OF l0 l1, of "\<lambda>x y. x = y"]
    by (auto simp: Eq_st_def Rescale_value)
  then show ?thesis
    by (simp add: Eq_aligned Lt_aligned Rescale_value represented_def)
qed

subsection \<open>Subtraction\<close>

text \<open>
  C9. For all Decimals \<open>a\<close> and \<open>b\<close>, \<^verbatim>\<open>a.Sub(b)\<close> rescales copies of both operands to the
  larger scale \<open>s\<close> of the two (each magnitude times \<open>10 ^ (s - scale)\<close>, as \<^verbatim>\<open>uint256\<close>),
  subtracts the aligned magnitudes modulo \<open>2 ^ 256\<close> with no error on underflow, and sets
  the result's scale to \<open>s\<close>. "1" - "2" wraps to magnitude \<open>2 ^ 256 - 1\<close>.
\<close>

theorem Sub_aligned:
  "(let s = max (mantissa a) (mantissa b);
        x = value (Rescale a s); y = value (Rescale b s)
    in x = value a * 10 ^ unat (s - mantissa a) \<and>
       y = value b * 10 ^ unat (s - mantissa b) \<and>
       Sub a (Some b) = \<lparr>value = x - y, mantissa = s\<rparr> \<and>
       uint (value (Sub a (Some b))) = (uint x - uint y) mod 2 ^ 256) \<and>
   NewDecimalFromString ''1'' = Some \<lparr>value = 1, mantissa = 0\<rparr> \<and>
   NewDecimalFromString ''2'' = Some \<lparr>value = 2, mantissa = 0\<rparr> \<and>
   unat (value (Sub \<lparr>value = 1, mantissa = 0\<rparr> (Some \<lparr>value = 2, mantissa = 0\<rparr>))) =
     2 ^ 256 - 1 \<and>
   mantissa (Sub \<lparr>value = 1, mantissa = 0\<rparr> (Some \<lparr>value = 2, mantissa = 0\<rparr>)) = 0"
proof -
  let ?s = "max (mantissa a) (mantissa b)"
  have 1: "Sub a (Some b) =
      \<lparr>value = value (Rescale a ?s) - value (Rescale b ?s), mantissa = ?s\<rparr>"
    by (simp add: Sub_def Let_def aligned_operands Rescale_mantissa)
  have 2: "uint (x - y) = (uint x - uint y) mod 2 ^ 256" for x y :: "256 word"
    by (simp add: uint_word_ariths)
  have 3: "value (Rescale a ?s) = value a * 10 ^ unat (?s - mantissa a)"
    by (rule Rescale_up_value) simp
  have 4: "value (Rescale b ?s) = value b * 10 ^ unat (?s - mantissa b)"
    by (rule Rescale_up_value) simp
  have 5: "NewDecimalFromString ''1'' = Some \<lparr>value = 1, mantissa = 0\<rparr>"
    by (simp add: codec_defs)
  have 6: "NewDecimalFromString ''2'' = Some \<lparr>value = 2, mantissa = 0\<rparr>"
    by (simp add: codec_defs)
  have 7: "Sub \<lparr>value = 1, mantissa = 0\<rparr> (Some \<lparr>value = 2, mantissa = 0\<rparr>) =
     \<lparr>value = - 1, mantissa = 0\<rparr>"
    by (simp add: Sub_def NewDecimal_Some Let_def)
  have 8: "unat (- 1 :: 256 word) = 2 ^ 256 - 1"
    by (simp add: unsigned_minus_1_eq_mask mask_eq_exp_minus_1)
  show ?thesis
    unfolding Let_def using 1 2 3 4 5 6 8 by (simp add: 7)
qed

subsection \<open>Conversion from an arbitrary-precision integer\<close>

text \<open>
  C10, as the code has it. For every integer \<open>v\<close> with \<open>\<bar>v\<bar> \<ge> 2 ^ 256\<close> and every
  requested mantissa \<open>m\<close>, \<^verbatim>\<open>NewDecimalFromBig(v, m)\<close> returns the exact zero with scale 0:
  \<open>m\<close> is discarded and no failure is signalled. For \<^verbatim>\<open>nil\<close> it returns magnitude 0 with
  the requested scale \<open>m\<close>.
\<close>

theorem NewDecimalFromBig_overflow:
  "(2 ^ 256 \<le> \<bar>v\<bar> \<longrightarrow> NewDecimalFromBig (Some v) m = \<lparr>value = 0, mantissa = 0\<rparr>) \<and>
   NewDecimalFromBig None m = \<lparr>value = 0, mantissa = m\<rparr>"
  by (simp add: NewDecimalFromBig_def uint256_FromBig_def uint256_SetFromBig_def
      NewDecimalZero_def Let_def)

theorem NewDecimalFromBig_overflow_witness:
  "(2::int) ^ 256 \<le> \<bar>2 ^ 256 + 5\<bar> \<and>
   NewDecimalFromBig (Some (2 ^ 256 + 5)) 7 = \<lparr>value = 0, mantissa = 0\<rparr> \<and>
   (2::int) ^ 256 \<le> \<bar>- (2 ^ 256)\<bar> \<and>
   NewDecimalFromBig (Some (- (2 ^ 256))) 7 = \<lparr>value = 0, mantissa = 0\<rparr> \<and>
   NewDecimalFromBig None 7 = \<lparr>value = 0, mantissa = 7\<rparr>"
proof -
  have h1: "(2::int) ^ 256 \<le> \<bar>2 ^ 256 + 5\<bar>" by simp
  have h2: "(2::int) ^ 256 \<le> \<bar>- (2 ^ 256)\<bar>" by simp
  from h1 h2 NewDecimalFromBig_overflow [of "2 ^ 256 + 5" 7]
    NewDecimalFromBig_overflow [of "- (2 ^ 256)" 7]
  show ?thesis by blast
qed

text \<open>
  The claim as written fails for \<^verbatim>\<open>nil\<close>, where the requested scale is kept, and for a
  negative number of fewer than 257 bits, which does not fit the unsigned range and is
  not reported as overflow.
\<close>

theorem NewDecimalFromBig_counterexample:
  "NewDecimalFromBig None 3 = \<lparr>value = 0, mantissa = 3\<rparr> \<and>
   NewDecimalFromBig None 3 \<noteq> \<lparr>value = 0, mantissa = 0\<rparr> \<and>
   NewDecimalFromBig (Some (- 1)) 3 \<noteq> \<lparr>value = 0, mantissa = 0\<rparr>"
  by (simp add: NewDecimalFromBig_def uint256_FromBig_def uint256_SetFromBig_def Let_def)

end
